theory Spec2Isabelle
  imports Complex_Main
begin

section \<open>The stock values retriever (stock_values_retriever.py)\<close>

text \<open>
  The script reads a CSV file of companies, visits one page of the London Stock Exchange
  per row, checks that the page is the company's page, reads the price and the time of the
  last update, and writes the table back to a CSV file.

  Everything outside the script is an oracle of the model: the file system
  (\<open>pd.read_csv\<close>), the browser (\<open>page.goto\<close> and what the loaded page shows), Python's
  \<open>float\<close> and the part of the \<open>re\<close> syntax that the model does not interpret. The
  script's own control flow, its string handling, its table updates, its prints and its
  exceptions are definitions below, one per method of \<open>CStockValuesRetriever\<close>.

  Strings are lists of 8-bit characters, read as the code points 0 to 255.
\<close>

subsection \<open>Python strings\<close>

text \<open>\<open>str.lower\<close> on the code points below 256: the ASCII capitals and the capitals
  of Latin-1 (0xC0 to 0xDE without the multiplication sign 0xD7) move up by 32.\<close>

definition lower_char :: "char \<Rightarrow> char" where
  "lower_char c =
     (let n = of_char c :: nat
      in if (65 \<le> n \<and> n \<le> 90) \<or> (192 \<le> n \<and> n \<le> 222 \<and> n \<noteq> 215)
         then char_of (n + 32) else c)"

definition lower :: "string \<Rightarrow> string" where
  "lower s = map lower_char s"

text \<open>\<open>s.replace(old, new)\<close> for one-character \<open>old\<close>, as the script calls it.\<close>

definition replace_char :: "char \<Rightarrow> string \<Rightarrow> string \<Rightarrow> string" where
  "replace_char old new s = concat (map (\<lambda>c. if c = old then new else [c]) s)"

text \<open>\<open>str.strip()\<close>: the white space of \<open>str.isspace\<close> below 256 is taken off both ends.\<close>

definition is_space :: "char \<Rightarrow> bool" where
  "is_space c =
     (let n = of_char c :: nat
      in (9 \<le> n \<and> n \<le> 13) \<or> (28 \<le> n \<and> n \<le> 32) \<or> n = 133 \<or> n = 160)"

definition strip :: "string \<Rightarrow> string" where
  "strip s = rev (dropWhile is_space (rev (dropWhile is_space s)))"

subsection \<open>The table\<close>

text \<open>A cell of the data frame is missing, a string or a number; \<open>'f\<close> is the type of
  Python's floats. A row maps the column names to its cells.\<close>

datatype 'f cell = NA | Str string | Num 'f

type_synonym 'f row = "string \<rightharpoonup> 'f cell"

record 'f dataframe =
  columns :: "string list"
  rows :: "'f row list"

text \<open>\<open>df.at[idx, col] = v\<close>: a column the frame does not have is added at the end,
  missing in every other row.\<close>

definition at_set :: "'f dataframe \<Rightarrow> nat \<Rightarrow> string \<Rightarrow> 'f cell \<Rightarrow> 'f dataframe" where
  "at_set df idx col v =
     (let df' = (if col \<in> set (columns df) then df
                 else df\<lparr>columns := columns df @ [col],
                         rows := map (\<lambda>r. r(col \<mapsto> NA)) (rows df)\<rparr>)
      in df'\<lparr>rows := (rows df')[idx := ((rows df') ! idx)(col \<mapsto> v)]\<rparr>)"

subsection \<open>Errors, prints and the outside world\<close>

datatype error =
    RuntimeError string
  | KeyError string
  | AttributeError
  | ValueError string
  | ReError string
  | PlaywrightError
  | OSError

text \<open>One constructor per \<open>print\<close> of the script, with the values it interpolates.\<close>

datatype log_msg =
    ReadingInput string
  | FileNotFoundMsg string
  | FileEmptyMsg string
  | NoResponse string
  | BadStatus int string
  | LandmarkNotFound
  | HeadingMismatch string
  | PriceNotFound
  | TimestampNotFound
  | LookingFor string
  | LoadingPage string
  | FailedToLoad
  | PageLoaded
  | Retrieving
  | BlankLine
  | DataSaved string

record response =
  status :: int
  status_text :: string

text \<open>What a locator's \<open>text_content()\<close> gives: the wait times out, or the element is
  there with a text or without one.\<close>

datatype locator_text = LTimeout | LText "string option"

text \<open>What the script asks of a loaded page: whether the link named "Company page" becomes
  visible, the accessible names of the visible headings, and the two elements it reads.\<close>

record page_content =
  landmark :: bool
  headings :: "string list"
  price_tag :: locator_text
  last_update :: locator_text

datatype goto_result = GotoRaises | Loaded "response option" page_content

datatype 'f read_result = FileNotFound | EmptyData | ReadRaises | Frame "'f dataframe"

text \<open>The oracles. \<open>goto\<close> depends on how many pages were visited before, so that the same
  address may load differently later. \<open>py_float\<close> is \<open>float(s)\<close>, \<open>None\<close> when it
  raises ValueError; \<open>py_str\<close> is \<open>str\<close> of a number. \<open>re_other\<close> compiles the patterns
  outside the fragment interpreted below (\<open>None\<close>: \<open>re.error\<close>). \<open>to_csv_ok\<close> tells
  whether the output path can be written. \<open>start_steps\<close> is the number of acquisitions
  of \<open>start()\<close> that succeed before one raises (4 or more: none raises).\<close>

record 'f world =
  read_csv :: "string \<Rightarrow> 'f read_result"
  goto :: "nat \<Rightarrow> string \<Rightarrow> goto_result"
  py_float :: "string \<Rightarrow> 'f option"
  py_str :: "'f \<Rightarrow> string"
  re_other :: "string \<Rightarrow> (string \<Rightarrow> bool) option"
  to_csv_ok :: "string \<Rightarrow> bool"
  start_steps :: nat

subsection \<open>Regular expressions\<close>

text \<open>The script builds the pattern \<open>company_name + '$'\<close> and compiles it with \<open>re.I\<close>.
  The model interprets the patterns made of ordinary characters, the dot and the dollar;
  a pattern with any other special character of \<open>re\<close> is left to the oracle.\<close>

datatype atom = Lit char | AnyChar | EndAnchor

definition other_special :: "char \<Rightarrow> bool" where
  "other_special c = (c \<in> set ''^*+?{}[]|()'' \<or> c = CHR 0x5C)"

fun parse_atom :: "char \<Rightarrow> atom option" where
  "parse_atom c =
     (if c = CHR ''.'' then Some AnyChar
      else if c = CHR ''$'' then Some EndAnchor
      else if other_special c then None
      else Some (Lit c))"

fun parse_pattern :: "string \<Rightarrow> atom list option" where
  "parse_pattern [] = Some []"
| "parse_pattern (c # cs) =
     (case parse_atom c of None \<Rightarrow> None
      | Some a \<Rightarrow> (case parse_pattern cs of None \<Rightarrow> None | Some as \<Rightarrow> Some (a # as)))"

text \<open>Matching at the start of the rest of the text, ignoring case: the dot is any
  character but the newline, the dollar holds at the end and before a final newline.\<close>

fun match_here :: "atom list \<Rightarrow> string \<Rightarrow> bool" where
  "match_here [] s = True"
| "match_here (Lit c # as) s =
     (case s of [] \<Rightarrow> False | x # xs \<Rightarrow> lower_char x = lower_char c \<and> match_here as xs)"
| "match_here (AnyChar # as) s =
     (case s of [] \<Rightarrow> False | x # xs \<Rightarrow> x \<noteq> CHR 0x0A \<and> match_here as xs)"
| "match_here (EndAnchor # as) s = ((s = [] \<or> s = [CHR 0x0A]) \<and> match_here as s)"

text \<open>\<open>search\<close>: a match starting anywhere in the text.\<close>

fun re_search :: "atom list \<Rightarrow> string \<Rightarrow> bool" where
  "re_search as [] = match_here as []"
| "re_search as (x # xs) = (match_here as (x # xs) \<or> re_search as xs)"

definition re_compile :: "'f world \<Rightarrow> string \<Rightarrow> (string \<Rightarrow> bool) option" where
  "re_compile w pat =
     (case parse_pattern pat of Some as \<Rightarrow> Some (re_search as) | None \<Rightarrow> re_other w pat)"

subsection \<open>The retriever\<close>

text \<open>The object's fields (\<open>input_file\<close> and \<open>output_file\<close> are never used), followed by
  what the run leaves outside: the printed lines, the addresses given to \<open>page.goto\<close>, the
  files written and the acquisitions and releases of the browser session. A handle is
  \<open>True\<close> once the field holds an object.\<close>

datatype resource = Playwright | Browser | Context | Page

datatype event = Acquired resource | Released resource

record 'f retriever =
  df_in :: "'f dataframe option"
  playwright :: bool
  browser :: bool
  context' :: bool
  page :: bool
  stdout :: "log_msg list"
  navigations :: "string list"
  written :: "(string \<times> 'f dataframe) list"
  session :: "event list"

definition init :: "'f retriever" where
  "init = \<lparr>df_in = None, playwright = False, browser = False, context' = False, page = False,
           stdout = [], navigations = [], written = [], session = []\<rparr>"

definition print :: "log_msg \<Rightarrow> 'f retriever \<Rightarrow> 'f retriever" where
  "print m st = st\<lparr>stdout := stdout st @ [m]\<rparr>"

definition prints :: "log_msg list \<Rightarrow> 'f retriever \<Rightarrow> 'f retriever" where
  "prints ms st = st\<lparr>stdout := stdout st @ ms\<rparr>"

subsubsection \<open>_setup\<close>

text \<open>\<open>astype('string')\<close> on one column: a number becomes its text, a string and a
  missing cell stay.\<close>

definition astype_string :: "'f world \<Rightarrow> 'f cell \<Rightarrow> 'f cell" where
  "astype_string w c = (case c of NA \<Rightarrow> NA | Str s \<Rightarrow> Str s | Num x \<Rightarrow> Str (py_str w x))"

definition astype_string_col :: "'f world \<Rightarrow> string \<Rightarrow> 'f dataframe \<Rightarrow> 'f dataframe" where
  "astype_string_col w col df =
     df\<lparr>rows := map (\<lambda>r. (case r col of None \<Rightarrow> r
                             | Some c \<Rightarrow> r(col \<mapsto> astype_string w c))) (rows df)\<rparr>"

definition setup' :: "'f world \<Rightarrow> string \<Rightarrow> 'f retriever \<Rightarrow> (error + bool) \<times> 'f retriever" where
  "setup' w input_path st =
     (let st1 = print (ReadingInput input_path) st
      in case read_csv w input_path of
           FileNotFound \<Rightarrow> (Inr False, print (FileNotFoundMsg input_path) st1)
         | EmptyData \<Rightarrow> (Inr False, print (FileEmptyMsg input_path) st1)
         | ReadRaises \<Rightarrow> (Inl OSError, st1)
         | Frame df \<Rightarrow>
             (let st2 = st1\<lparr>df_in := Some df\<rparr>
              in if ''timestamp'' \<notin> set (columns df) then (Inl (KeyError ''timestamp''), st2)
                 else (Inr True, st2\<lparr>df_in := Some (astype_string_col w ''timestamp'' df)\<rparr>)))"

subsubsection \<open>_verify_page\<close>

text \<open>The result is the boolean with the line printed on the way, or \<open>re.error\<close>, which
  the \<open>except AssertionError\<close> around the heading check does not catch.\<close>

definition verify_page ::
  "'f world \<Rightarrow> response option \<Rightarrow> page_content \<Rightarrow> string \<Rightarrow> string
     \<Rightarrow> error + (bool \<times> log_msg list)" where
  "verify_page w resp pg company_url company_name =
     (case resp of
        None \<Rightarrow> Inr (False, [NoResponse company_url])
      | Some r \<Rightarrow>
          if status r \<noteq> 200 then Inr (False, [BadStatus (status r) (status_text r)])
          else if \<not> landmark pg then Inr (False, [LandmarkNotFound])
          else (case re_compile w (company_name @ ''$'') of
                  None \<Rightarrow> Inl (ReError (company_name @ ''$''))
                | Some matches \<Rightarrow>
                    if list_ex matches (headings pg) then Inr (True, [])
                    else Inr (False, [HeadingMismatch company_name])))"

subsubsection \<open>_get_stock_value and _get_last_update_timestamp\<close>

text \<open>Both return a string, or \<open>False\<close> after a timeout: \<open>None\<close> here.\<close>

definition get_stock_value :: "page_content \<Rightarrow> string option \<times> log_msg list" where
  "get_stock_value pg =
     (case price_tag pg of
        LTimeout \<Rightarrow> (None, [PriceNotFound])
      | LText t \<Rightarrow>
          (let raw_price = strip (case t of None \<Rightarrow> [] | Some s \<Rightarrow> s);
               raw_price' = (if CHR '','' \<notin> set raw_price then raw_price
                             else replace_char CHR '','' [] raw_price)
           in (Some raw_price', [])))"

definition get_last_update_timestamp :: "page_content \<Rightarrow> string option \<times> log_msg list" where
  "get_last_update_timestamp pg =
     (case last_update pg of
        LTimeout \<Rightarrow> (None, [TimestampNotFound])
      | LText t \<Rightarrow> (Some (strip (case t of None \<Rightarrow> [] | Some s \<Rightarrow> s)), []))"

text \<open>Python's truth value of "a string or False".\<close>

definition truthy :: "string option \<Rightarrow> bool" where
  "truthy v = (case v of None \<Rightarrow> False | Some s \<Rightarrow> s \<noteq> [])"

subsubsection \<open>start and stop\<close>

definition acquire :: "resource \<Rightarrow> 'f retriever \<Rightarrow> 'f retriever" where
  "acquire r st =
     (let st' = st\<lparr>session := session st @ [Acquired r]\<rparr>
      in case r of Playwright \<Rightarrow> st'\<lparr>playwright := True\<rparr>
                 | Browser \<Rightarrow> st'\<lparr>browser := True\<rparr>
                 | Context \<Rightarrow> st'\<lparr>context' := True\<rparr>
                 | Page \<Rightarrow> st'\<lparr>page := True\<rparr>)"

definition release :: "resource \<Rightarrow> 'f retriever \<Rightarrow> 'f retriever" where
  "release r st = st\<lparr>session := session st @ [Released r]\<rparr>"

definition start :: "'f world \<Rightarrow> 'f retriever \<Rightarrow> (error + unit) \<times> 'f retriever" where
  "start w st =
     (if start_steps w = 0 then (Inl PlaywrightError, st)
      else let st1 = acquire Playwright st
      in if start_steps w = 1 then (Inl PlaywrightError, st1)
      else let st2 = acquire Browser st1
      in if start_steps w = 2 then (Inl PlaywrightError, st2)
      else let st3 = acquire Context st2
      in if start_steps w = 3 then (Inl PlaywrightError, st3)
      else (Inr (), acquire Page st3))"

definition stop :: "'f retriever \<Rightarrow> 'f retriever" where
  "stop st =
     (let st1 = (if page st then release Page st else st);
          st2 = (if context' st1 then release Context st1 else st1);
          st3 = (if browser st2 then release Browser st2 else st2)
      in if playwright st3 then release Playwright st3 else st3)"

subsubsection \<open>get_stock_values_csv\<close>

definition url_base :: "string \<Rightarrow> string \<Rightarrow> string" where
  "url_base code slug =
     ''https://www.londonstockexchange.com/stock/'' @ code @ ''/'' @ slug @ ''/company-page''"

text \<open>\<open>str.format\<close> writes a cell as \<open>str\<close> does.\<close>

definition format_cell :: "'f world \<Rightarrow> 'f cell \<Rightarrow> string" where
  "format_cell w c = (case c of NA \<Rightarrow> ''nan'' | Str s \<Rightarrow> s | Num x \<Rightarrow> py_str w x)"

text \<open>The address of a row's page: the two lines under "prepare URL to company page".\<close>

definition company_page_url :: "'f world \<Rightarrow> 'f cell \<Rightarrow> string \<Rightarrow> string" where
  "company_page_url w stock_code company_name =
     (let name_converted = replace_char CHR '' '' ''-'' (lower company_name)
      in url_base (format_cell w stock_code) name_converted)"

text \<open>The two assignments at the end of the loop body. \<open>float\<close> may raise ValueError,
  and nothing catches it.\<close>

definition store_results ::
  "'f world \<Rightarrow> nat \<Rightarrow> string option \<Rightarrow> string option \<Rightarrow> 'f dataframe \<Rightarrow> error + 'f dataframe" where
  "store_results w idx stock_value timestamp df =
     (case (if truthy stock_value
            then (case py_float w (the stock_value) of
                    None \<Rightarrow> Inl (ValueError (the stock_value))
                  | Some v \<Rightarrow> Inr (at_set df idx ''value'' (Num v)))
            else Inr df) of
        Inl e \<Rightarrow> Inl e
      | Inr df1 \<Rightarrow>
          Inr (if truthy timestamp then at_set df1 idx ''timestamp'' (Str (the timestamp))
               else df1))"

text \<open>One pass of the loop body for the row \<open>row\<close> at index \<open>idx\<close>.\<close>

definition process_row ::
  "'f world \<Rightarrow> 'f retriever \<Rightarrow> nat \<times> 'f row \<Rightarrow> (error + unit) \<times> 'f retriever" where
  "process_row w st ir =
     (case ir of (idx, row) \<Rightarrow>
      case row ''company name'' of
        None \<Rightarrow> (Inl (KeyError ''company name''), st)
      | Some company_name \<Rightarrow>
      case row ''stock code'' of
        None \<Rightarrow> (Inl (KeyError ''stock code''), st)
      | Some stock_code \<Rightarrow>
      let st1 = print (LookingFor (format_cell w company_name)) st
      in case company_name of
        NA \<Rightarrow> (Inl AttributeError, st1)
      | Num x \<Rightarrow> (Inl AttributeError, st1)
      | Str name \<Rightarrow>
      let company_url = company_page_url w stock_code name;
          st2 = print (LoadingPage company_url) st1
      in if \<not> page st2 then (Inl AttributeError, st2)
      else let st3 = st2\<lparr>navigations := navigations st2 @ [company_url]\<rparr>
      in case goto w (length (navigations st2)) company_url of
        GotoRaises \<Rightarrow> (Inl PlaywrightError, st3)
      | Loaded resp pg \<Rightarrow>
      case verify_page w resp pg company_url name of
        Inl e \<Rightarrow> (Inl e, st3)
      | Inr (ok, msgs) \<Rightarrow>
      let st4 = prints msgs st3
      in if \<not> ok then (Inr (), print FailedToLoad st4)
      else let st5 = print Retrieving (print PageLoaded st4);
               (stock_value, m1) = get_stock_value pg;
               (timestamp, m2) = get_last_update_timestamp pg;
               st6 = prints m2 (prints m1 st5)
      in case df_in st6 of
        None \<Rightarrow> (Inl AttributeError, st6)
      | Some df \<Rightarrow>
      case store_results w idx stock_value timestamp df of
        Inl e \<Rightarrow> (Inl e, st6)
      | Inr df' \<Rightarrow> (Inr (), print BlankLine (st6\<lparr>df_in := Some df'\<rparr>)))"

text \<open>The \<open>for\<close> loop: an exception ends it, \<open>continue\<close> and the end of the body go on
  with the next row.\<close>

fun process_rows ::
  "'f world \<Rightarrow> 'f retriever \<Rightarrow> (nat \<times> 'f row) list \<Rightarrow> (error + unit) \<times> 'f retriever" where
  "process_rows w st [] = (Inr (), st)"
| "process_rows w st (ir # irs) =
     (case process_row w st ir of
        (Inl e, st') \<Rightarrow> (Inl e, st')
      | (Inr u, st') \<Rightarrow> process_rows w st' irs)"

text \<open>\<open>iterrows()\<close> pairs each row with its index; \<open>read_csv\<close> numbers the rows from 0.\<close>

definition iterrows :: "'f dataframe \<Rightarrow> (nat \<times> 'f row) list" where
  "iterrows df = enumerate 0 (rows df)"

definition get_stock_values_csv ::
  "'f world \<Rightarrow> string \<Rightarrow> string \<Rightarrow> 'f retriever \<Rightarrow> (error + unit) \<times> 'f retriever" where
  "get_stock_values_csv w input_path output_path st =
     (case setup' w input_path st of
        (Inl e, st1) \<Rightarrow> (Inl e, st1)
      | (Inr ok, st1) \<Rightarrow>
      if \<not> ok then (Inl (RuntimeError input_path), st1)
      else case df_in st1 of
        None \<Rightarrow> (Inl AttributeError, st1)
      | Some df \<Rightarrow>
      case process_rows w st1 (iterrows df) of
        (Inl e, st2) \<Rightarrow> (Inl e, st2)
      | (Inr u, st2) \<Rightarrow>
      case df_in st2 of
        None \<Rightarrow> (Inl AttributeError, st2)
      | Some df2 \<Rightarrow>
      if \<not> to_csv_ok w output_path then (Inl OSError, st2)
      else (Inr (), print (DataSaved output_path)
                      (st2\<lparr>written := written st2 @ [(output_path, df2)]\<rparr>)))"

subsubsection \<open>The main block\<close>

text \<open>\<open>try: start(); get_stock_values_csv(...) finally: stop()\<close> on a new object.\<close>

definition main :: "'f world \<Rightarrow> string \<Rightarrow> string \<Rightarrow> (error + unit) \<times> 'f retriever" where
  "main w input_path output_path =
     (case start w init of
        (Inl e, st1) \<Rightarrow> (Inl e, stop st1)
      | (Inr u, st1) \<Rightarrow>
          (case get_stock_values_csv w input_path output_path st1 of
             (r, st2) \<Rightarrow> (r, stop st2)))"

subsection \<open>Relating two states of the table\<close>

text \<open>\<open>table_step df df'\<close>: the table \<open>df'\<close> has the rows of \<open>df\<close>, in the same order and
  with the same cells outside the columns \<open>value\<close> and \<open>timestamp\<close>, and the columns of
  \<open>df\<close> in the same order, followed by \<open>value\<close> if \<open>df\<close> did not have it.\<close>

definition table_step :: "'f dataframe \<Rightarrow> 'f dataframe \<Rightarrow> bool" where
  "table_step df df' \<longleftrightarrow>
     length (rows df') = length (rows df) \<and>
     (columns df' = columns df \<or>
      (''value'' \<notin> set (columns df) \<and> columns df' = columns df @ [''value''])) \<and>
     (\<forall>j<length (rows df). \<forall>c. c \<noteq> ''value'' \<longrightarrow> c \<noteq> ''timestamp'' \<longrightarrow>
        (rows df' ! j) c = (rows df ! j) c)"

subsection \<open>A small world to run the script in\<close>

text \<open>Two companies in \<open>in.csv\<close>, a file without the \<open>timestamp\<close> column, an empty file
  and no other file; floats are rationals, and \<open>float\<close> knows one literal. The pages are
  given by the argument.\<close>

definition demo_ok :: response where
  "demo_ok = \<lparr>status = 200, status_text = ''OK''\<rparr>"


definition demo_page :: page_content where
  "demo_page = \<lparr>landmark = True, headings = [''ACME PLC''],
                 price_tag = LText (Some '' 1,234.5 ''),
                 last_update = LText (Some ''04.11.26 16:35'')\<rparr>"

definition demo_row :: "rat row" where
  "demo_row = [''company name'' \<mapsto> Str ''Acme plc'', ''stock code'' \<mapsto> Str ''ACM'',
               ''timestamp'' \<mapsto> Str ''old'']"

definition demo_row2 :: "rat row" where
  "demo_row2 = [''company name'' \<mapsto> Str ''Other Co'', ''stock code'' \<mapsto> Str ''OTH'',
                ''timestamp'' \<mapsto> NA]"

definition demo_df :: "rat dataframe" where
  "demo_df = \<lparr>columns = [''company name'', ''stock code'', ''timestamp''],
               rows = [demo_row, demo_row2]\<rparr>"

definition demo_df_no_timestamp :: "rat dataframe" where
  "demo_df_no_timestamp =
     \<lparr>columns = [''company name'', ''stock code''],
      rows = [[''company name'' \<mapsto> Str ''Acme plc'', ''stock code'' \<mapsto> Str ''ACM'']]\<rparr>"

definition demo_world :: "(nat \<Rightarrow> string \<Rightarrow> goto_result) \<Rightarrow> rat world" where
  "demo_world g =
     \<lparr>read_csv = (\<lambda>p. if p = ''in.csv'' then Frame demo_df
                       else if p = ''no_timestamp.csv'' then Frame demo_df_no_timestamp
                       else if p = ''empty.csv'' then EmptyData
                       else FileNotFound),
      goto = g,
      py_float = (\<lambda>s. if s = ''1234.5'' then Some (2469 / 2) else None),
      py_str = (\<lambda>x. ''0''),
      re_other = (\<lambda>p. None),
      to_csv_ok = (\<lambda>p. True),
      start_steps = 4\<rparr>"

text \<open>A page with a price that is not a number and without the time of the last update,
  and a page without the price.\<close>

definition demo_page_bad_price :: page_content where
  "demo_page_bad_price = demo_page\<lparr>price_tag := LText (Some ''n/a''), last_update := LTimeout\<rparr>"


text \<open>The retriever after \<open>start()\<close> and \<open>_setup\<close> of \<open>in.csv\<close>.\<close>

definition demo_state :: "rat retriever" where
  "demo_state = init\<lparr>df_in := Some demo_df, playwright := True, browser := True,
                      context' := True, page := True\<rparr>"

section \<open>Properties\<close>

subsection \<open>What the loop leaves alone\<close>

lemma process_row_frame:
  assumes "process_row w st ir = (r, st')"
  shows "session st' = session st \<and> written st' = written st \<and> page st' = page st
       \<and> context' st' = context' st \<and> browser st' = browser st \<and> playwright st' = playwright st"
  using assms
  unfolding process_row_def
  by (auto simp: Let_def print_def prints_def
           split: option.splits cell.splits goto_result.splits sum.splits prod.splits if_splits)

lemma process_rows_frame:
  assumes "process_rows w st irs = (r, st')"
  shows "session st' = session st \<and> written st' = written st \<and> page st' = page st
       \<and> context' st' = context' st \<and> browser st' = browser st \<and> playwright st' = playwright st"
  using assms
proof (induction irs arbitrary: st)
  case Nil
  then show ?case by simp
next
  case (Cons ir irs)
  obtain r1 st1 where p: "process_row w st ir = (r1, st1)" by (cases "process_row w st ir")
  show ?case
  proof (cases r1)
    case (Inl e)
    with Cons.prems p have "st' = st1" by simp
    with process_row_frame[OF p] show ?thesis by simp
  next
    case (Inr u)
    with Cons.prems p have "process_rows w st1 irs = (r, st')" by simp
    from Cons.IH[OF this] process_row_frame[OF p] show ?thesis by simp
  qed
qed

lemma setup_frame:
  assumes "setup' w p st = (r, st')"
  shows "session st' = session st \<and> written st' = written st \<and> page st' = page st
       \<and> context' st' = context' st \<and> browser st' = browser st \<and> playwright st' = playwright st
       \<and> navigations st' = navigations st"
  using assms unfolding setup'_def
  by (auto simp: Let_def print_def split: read_result.splits if_splits)

lemma get_stock_values_csv_frame:
  assumes "get_stock_values_csv w p out st = (r, st')"
  shows "session st' = session st \<and> page st' = page st
       \<and> context' st' = context' st \<and> browser st' = browser st \<and> playwright st' = playwright st"
  using assms unfolding get_stock_values_csv_def
  by (auto simp: print_def split: prod.splits sum.splits if_splits option.splits
        dest!: setup_frame process_rows_frame)

subsection \<open>The browser session\<close>

text \<open>
  Claim C8. In every run of the main block, whatever \<open>start()\<close> acquired is released
  by \<open>stop()\<close> exactly once, after the last acquisition and in the reverse order, and
  nothing else is released. This holds on every exit path: when \<open>start()\<close> raises after
  \<open>start_steps\<close> acquisitions (the handles assigned so far are the ones released), when
  \<open>get_stock_values_csv\<close> raises and when it returns. The closing calls themselves are
  taken not to raise.
\<close>

theorem session_released_exactly_once:
  "session (snd (main w input_path output_path)) =
     map Acquired (take (start_steps w) [Playwright, Browser, Context, Page]) @
     map Released (rev (take (start_steps w) [Playwright, Browser, Context, Page]))"
proof -
  consider "start_steps w = 0" | "start_steps w = 1" | "start_steps w = 2" | "start_steps w = 3"
    | "start_steps w \<ge> 4" by linarith
  then show ?thesis
  proof cases
    case 5
    obtain r st2 where
      g: "get_stock_values_csv w input_path output_path (snd (start w init)) = (r, st2)"
      by (cases "get_stock_values_csv w input_path output_path (snd (start w init))")
    have s: "start w init = (Inr (), snd (start w init))"
      using 5 by (simp add: start_def Let_def)
    have "main w input_path output_path = (r, stop st2)"
      unfolding main_def using s g by (metis (no_types, lifting) old.prod.case old.sum.simps(6))
    moreover have "session (snd (start w init)) = map Acquired [Playwright, Browser, Context, Page]"
      "page (snd (start w init))" "context' (snd (start w init))" "browser (snd (start w init))"
      "playwright (snd (start w init))"
      using 5 by (simp_all add: start_def Let_def acquire_def init_def)
    ultimately show ?thesis using get_stock_values_csv_frame[OF g] 5
      by (simp add: stop_def release_def Let_def)
  qed (simp_all add: main_def start_def Let_def acquire_def init_def stop_def release_def)
qed

subsection \<open>The input file\<close>

text \<open>
  Claim C3. If the input file is missing or empty, \<open>get_stock_values_csv\<close> raises
  RuntimeError; up to then no page was asked for and no file was written, so the run
  aborts before any network activity and before the output.
\<close>

theorem missing_or_empty_input_is_fatal:
  assumes "read_csv w input_path = FileNotFound \<or> read_csv w input_path = EmptyData"
  shows "\<exists>st'. get_stock_values_csv w input_path output_path st =
                 (Inl (RuntimeError input_path), st')
           \<and> navigations st' = navigations st \<and> written st' = written st"
  using assms
  by (auto simp: get_stock_values_csv_def setup'_def Let_def print_def)

theorem missing_or_empty_input_is_fatal_witness:
  "read_csv (demo_world (\<lambda>n u. GotoRaises)) ''missing.csv'' = FileNotFound \<and>
   read_csv (demo_world (\<lambda>n u. GotoRaises)) ''empty.csv'' = EmptyData \<and>
   (\<exists>st'. get_stock_values_csv (demo_world (\<lambda>n u. GotoRaises)) ''missing.csv'' ''out.csv'' init =
            (Inl (RuntimeError ''missing.csv''), st')
          \<and> navigations st' = [] \<and> written st' = []) \<and>
   (\<exists>st'. get_stock_values_csv (demo_world (\<lambda>n u. GotoRaises)) ''empty.csv'' ''out.csv'' init =
            (Inl (RuntimeError ''empty.csv''), st')
          \<and> navigations st' = [] \<and> written st' = [])"
  using missing_or_empty_input_is_fatal
          [of "demo_world (\<lambda>n u. GotoRaises)" "''missing.csv''" "''out.csv''" init]
        missing_or_empty_input_is_fatal
          [of "demo_world (\<lambda>n u. GotoRaises)" "''empty.csv''" "''out.csv''" init]
  by (simp add: demo_world_def init_def)

subsection \<open>Strings and the address of a page\<close>

lemma lower_char_space: "lower_char c = CHR '' '' \<longleftrightarrow> c = CHR '' ''"
proof
  assume a: "lower_char c = CHR '' ''"
  show "c = CHR '' ''"
  proof (rule ccontr)
    assume n: "c \<noteq> CHR '' ''"
    define k where "k = (of_char c :: nat)"
    from a n have up: "65 \<le> k" "k \<le> 222"
      and eq: "char_of (k + 32) = CHR '' ''"
      by (auto simp: lower_char_def Let_def k_def split: if_splits)
    from eq have "of_char (char_of (k + 32) :: char) = (of_char (CHR '' '') :: nat)"
      by simp
    then have "(k + 32) mod 256 = 32" by (simp add: of_char_of)
    moreover from up have "(k + 32) mod 256 = k + 32" by simp
    ultimately show False using up by simp
  qed
next
  assume "c = CHR '' ''" then show "lower_char c = CHR '' ''" by (simp add: lower_char_def)
qed

lemma replace_char_single: "replace_char old [new] s = map (\<lambda>c. if c = old then new else c) s"
  by (induction s) (simp_all add: replace_char_def)

lemma company_page_url_template:
  "company_page_url w code name =
     ''https://www.londonstockexchange.com/stock/'' @ format_cell w code @ ''/'' @
     map (\<lambda>c. if c = CHR '' '' then CHR ''-'' else lower_char c) name @ ''/company-page''"
proof -
  have slug: "replace_char CHR '' '' ''-'' (lower name) =
              map (\<lambda>c. if c = CHR '' '' then CHR ''-'' else lower_char c) name"
    by (simp add: replace_char_single lower_def lower_char_space)
  show ?thesis unfolding company_page_url_def Let_def slug url_base_def ..
qed

subsection \<open>One pass of the loop body\<close>

lemma print_fields:
  "page (print m st) = page st" "navigations (print m st) = navigations st"
  "df_in (print m st) = df_in st" "written (print m st) = written st"
  "page (prints ms st) = page st" "navigations (prints ms st) = navigations st"
  "df_in (prints ms st) = df_in st" "written (prints ms st) = written st"
  by (simp_all add: print_def prints_def)

lemma process_row_navigations:
  assumes "row ''company name'' = Some (Str name)" and "row ''stock code'' = Some code"
    and "page st"
  shows "navigations (snd (process_row w st (idx, row))) =
           navigations st @ [company_page_url w code name]"
  using assms unfolding process_row_def
  by (simp add: Let_def print_def prints_def
         split: goto_result.split sum.split prod.split option.split)



lemma process_row_verified_eq:
  assumes "row ''company name'' = Some (Str name)" and "row ''stock code'' = Some code"
    and "page st"
    and "goto w (length (navigations st)) (company_page_url w code name) = Loaded resp pg"
    and "verify_page w resp pg (company_page_url w code name) name = Inr (True, msgs)"
    and "df_in st = Some df"
  shows "process_row w st (idx, row) =
     (let st6 = prints (snd (get_last_update_timestamp pg)) (prints (snd (get_stock_value pg))
                 (print Retrieving (print PageLoaded (prints msgs
                   ((print (LoadingPage (company_page_url w code name)) (print (LookingFor name) st))
                      \<lparr>navigations := navigations st @ [company_page_url w code name]\<rparr>)))))
      in case store_results w idx (fst (get_stock_value pg)) (fst (get_last_update_timestamp pg)) df of
                Inl e \<Rightarrow> (Inl e, st6)
              | Inr df' \<Rightarrow> (Inr (), print BlankLine (st6\<lparr>df_in := Some df'\<rparr>)))"
  using assms unfolding process_row_def
  by (simp add: Let_def split_beta format_cell_def print_fields)

lemma process_row_verified:
  assumes "row ''company name'' = Some (Str name)" and "row ''stock code'' = Some code"
    and "page st"
    and "goto w (length (navigations st)) (company_page_url w code name) = Loaded resp pg"
    and "verify_page w resp pg (company_page_url w code name) name = Inr (True, msgs)"
    and "df_in st = Some df"
  shows "\<exists>st6. df_in st6 = Some df \<and> written st6 = written st \<and>
           process_row w st (idx, row) =
             (case store_results w idx (fst (get_stock_value pg)) (fst (get_last_update_timestamp pg)) df of
                Inl e \<Rightarrow> (Inl e, st6)
              | Inr df' \<Rightarrow> (Inr (), print BlankLine (st6\<lparr>df_in := Some df'\<rparr>)))"
proof -
  let ?st6 = "prints (snd (get_last_update_timestamp pg)) (prints (snd (get_stock_value pg))
                 (print Retrieving (print PageLoaded (prints msgs
                   ((print (LoadingPage (company_page_url w code name)) (print (LookingFor name) st))
                      \<lparr>navigations := navigations st @ [company_page_url w code name]\<rparr>)))))"
  have "df_in ?st6 = Some df" "written ?st6 = written st"
    using assms(6) by (simp_all add: print_fields)
  then show ?thesis using process_row_verified_eq[OF assms, of idx] unfolding Let_def by blast
qed

subsection \<open>Reading the page and updating the table\<close>

lemma replace_char_empty: "replace_char old [] s = filter (\<lambda>c. c \<noteq> old) s"
  by (induction s) (simp_all add: replace_char_def)

lemma fst_get_stock_value:
  "fst (get_stock_value pg) =
     (case price_tag pg of LTimeout \<Rightarrow> None
      | LText t \<Rightarrow> Some (filter (\<lambda>c. c \<noteq> CHR '','') (strip (case t of None \<Rightarrow> [] | Some s \<Rightarrow> s))))"
proof (cases "price_tag pg")
  case LTimeout
  then show ?thesis by (simp add: get_stock_value_def)
next
  case (LText t)
  have "CHR '','' \<notin> set s \<Longrightarrow> filter (\<lambda>c. c \<noteq> CHR '','') s = s" for s :: string
    by (induction s) auto
  then show ?thesis using LText
    by (simp add: get_stock_value_def Let_def replace_char_empty)
qed



lemma at_set_columns:
  "columns (at_set df i c v) = (if c \<in> set (columns df) then columns df else columns df @ [c])"
  by (simp add: at_set_def Let_def)



lemma store_results_error:
  assumes "truthy sv" "py_float w (the sv) = None"
  shows "store_results w i sv ts df = Inl (ValueError (the sv))"
  using assms by (simp add: store_results_def)



subsection \<open>The small world\<close>

lemma demo_world_sel:
  "goto (demo_world g) = g"
  "py_float (demo_world g) = (\<lambda>s. if s = ''1234.5'' then Some (2469 / 2) else None)"
  "re_other (demo_world g) = (\<lambda>p. None)"
  "to_csv_ok (demo_world g) = (\<lambda>p. True)"
  "start_steps (demo_world g) = 4"
  by (simp_all add: demo_world_def)


subsection \<open>The address visited for a row\<close>

text \<open>
  Claim C7. For every row with a company name and a stock code, the loop body asks the
  browser for exactly one address: the fixed template
  \<open>https://www.londonstockexchange.com/stock/{code}/{slug}/company-page\<close>, where \<open>{code}\<close>
  is the row's stock code as \<open>str.format\<close> writes it (the text itself for a text cell) and
  \<open>{slug}\<close> is the company name in lower case with every space replaced by a hyphen.
\<close>

theorem visited_url_follows_template:
  assumes "row ''company name'' = Some (Str name)" and "row ''stock code'' = Some code"
    and "page st"
  shows "navigations (snd (process_row w st (idx, row))) =
           navigations st @
           [''https://www.londonstockexchange.com/stock/'' @ format_cell w code @ ''/'' @
            map (\<lambda>c. if c = CHR '' '' then CHR ''-'' else lower_char c) name @ ''/company-page'']"
  using process_row_navigations[OF assms] by (simp only: company_page_url_template)

theorem visited_url_follows_template_witness:
  "navigations (snd (process_row (demo_world (\<lambda>n u. GotoRaises)) demo_state (0, demo_row))) =
     [''https://www.londonstockexchange.com/stock/ACM/acme-plc/company-page'']"
  using visited_url_follows_template
          [of demo_row "''Acme plc''" "Str ''ACM''" demo_state "demo_world (\<lambda>n u. GotoRaises)" 0]
  by (simp add: demo_row_def demo_state_def init_def format_cell_def lower_char_def char_of_eq_iff)

subsection \<open>A page that fails the verification\<close>



subsection \<open>The price\<close>



subsection \<open>The whole function\<close>

lemma setup_ok:
  assumes "read_csv w p = Frame df0" "''timestamp'' \<in> set (columns df0)"
  shows "setup' w p st =
           (Inr True, (print (ReadingInput p) st)\<lparr>df_in := Some (astype_string_col w ''timestamp'' df0)\<rparr>)"
  using assms by (simp add: setup'_def Let_def)

lemma process_rows_append:
  "process_rows w st (xs @ ys) =
     (case process_rows w st xs of (Inl e, st') \<Rightarrow> (Inl e, st') | (Inr u, st') \<Rightarrow> process_rows w st' ys)"
  by (induction xs arbitrary: st) (auto split: prod.splits sum.splits)

lemma process_row_df_some:
  assumes "process_row w st ir = (res, st')" "df_in st \<noteq> None"
  shows "df_in st' \<noteq> None"
  using assms unfolding process_row_def
  by (auto simp: Let_def print_def prints_def
           split: option.splits cell.splits goto_result.splits sum.splits prod.splits if_splits)

lemma process_rows_df_some:
  assumes "process_rows w st irs = (res, st')" "df_in st \<noteq> None"
  shows "df_in st' \<noteq> None"
  using assms
proof (induction irs arbitrary: st)
  case Nil
  then show ?case by simp
next
  case (Cons ir irs)
  obtain r1 st1 where p: "process_row w st ir = (r1, st1)" by (cases "process_row w st ir")
  from process_row_df_some[OF p Cons.prems(2)] have d: "df_in st1 \<noteq> None" .
  show ?case
  proof (cases r1)
    case (Inl e)
    with Cons.prems(1) p have "st' = st1" by simp
    with d show ?thesis by simp
  next
    case (Inr u)
    with Cons.prems(1) p have "process_rows w st1 irs = (res, st')" by simp
    from Cons.IH[OF this d] show ?thesis .
  qed
qed

lemma demo_world_read:
  "read_csv (demo_world g) ''in.csv'' = Frame demo_df"
  "read_csv (demo_world g) ''no_timestamp.csv'' = Frame demo_df_no_timestamp"
  by (simp_all add: demo_world_def)

lemma demo_verify:
  assumes "headings pg = [''ACME PLC'']" "landmark pg"
  shows "verify_page (demo_world g) (Some demo_ok) pg
           (company_page_url (demo_world g) (Str ''ACM'') ''Acme plc'') ''Acme plc'' = Inr (True, [])"
  using assms
  by (simp add: verify_page_def demo_ok_def re_compile_def other_special_def lower_char_def
        char_of_eq_iff)

lemma demo_strip: "strip ''n/a'' = ''n/a''" "strip '' 1,234.5 '' = ''1,234.5''"
  "strip ''04.11.26 16:35'' = ''04.11.26 16:35''"
  by (simp_all add: strip_def is_space_def)


text \<open>
  Claim C10. If the input file is read but has no \<open>timestamp\<close> column, \<open>_setup\<close> raises
  KeyError: it does not return False, so \<open>get_stock_values_csv\<close> ends with that KeyError
  and not with the RuntimeError of the documented path, before any page is asked for and
  before anything is written. \<open>_setup\<close> returns False exactly when the file is not found
  or is empty.
\<close>

theorem missing_timestamp_column_raises_KeyError:
  "(read_csv w input_path = Frame df \<and> ''timestamp'' \<notin> set (columns df) \<longrightarrow>
      fst (setup' w input_path st) = Inl (KeyError ''timestamp'') \<and>
      (\<exists>st'. get_stock_values_csv w input_path output_path st = (Inl (KeyError ''timestamp''), st')
         \<and> navigations st' = navigations st \<and> written st' = written st)) \<and>
   (fst (setup' w input_path st) = Inr False \<longleftrightarrow>
      read_csv w input_path = FileNotFound \<or> read_csv w input_path = EmptyData)"
proof -
  have "fst (setup' w input_path st) = Inr False \<longleftrightarrow>
      read_csv w input_path = FileNotFound \<or> read_csv w input_path = EmptyData"
    by (simp add: setup'_def Let_def split: read_result.split)
  then show ?thesis
    by (simp add: get_stock_values_csv_def setup'_def Let_def print_def)
qed

theorem missing_timestamp_column_raises_KeyError_witness:
  "read_csv (demo_world (\<lambda>n u. GotoRaises)) ''no_timestamp.csv'' = Frame demo_df_no_timestamp \<and>
   ''timestamp'' \<notin> set (columns demo_df_no_timestamp) \<and>
   fst (setup' (demo_world (\<lambda>n u. GotoRaises)) ''no_timestamp.csv'' init) = Inl (KeyError ''timestamp'') \<and>
   (\<exists>st'. get_stock_values_csv (demo_world (\<lambda>n u. GotoRaises)) ''no_timestamp.csv'' ''out.csv'' init
             = (Inl (KeyError ''timestamp''), st')
          \<and> navigations st' = [] \<and> written st' = [])"
  using missing_timestamp_column_raises_KeyError
          [of "demo_world (\<lambda>n u. GotoRaises)" "''no_timestamp.csv''" demo_df_no_timestamp init "''out.csv''"]
  by (simp add: demo_world_read demo_df_no_timestamp_def init_def)

subsection \<open>A price that is not a number\<close>

text \<open>
  Claim C9. If the rows before some row are processed without an exception, the page of
  that row is verified, and its price text, stripped and without commas, is not empty
  and not accepted by \<open>float\<close>, then \<open>get_stock_values_csv\<close> ends with the ValueError of
  that text, whatever rows follow, and has written no file.
\<close>

theorem unparseable_price_aborts_batch:
  assumes "read_csv w input_path = Frame df0" and "''timestamp'' \<in> set (columns df0)"
    and "page st"
    and "iterrows (astype_string_col w ''timestamp'' df0) = pre @ (idx, row) # post"
    and "process_rows w (snd (setup' w input_path st)) pre = (Inr (), st2)"
    and "row ''company name'' = Some (Str name)" and "row ''stock code'' = Some code"
    and "goto w (length (navigations st2)) (company_page_url w code name) = Loaded resp pg"
    and "verify_page w resp pg (company_page_url w code name) name = Inr (True, msgs)"
    and "price_tag pg = LText (Some t)"
    and "filter (\<lambda>c. c \<noteq> CHR '','') (strip t) \<noteq> []"
    and "py_float w (filter (\<lambda>c. c \<noteq> CHR '','') (strip t)) = None"
  shows "\<exists>st'. get_stock_values_csv w input_path output_path st =
                 (Inl (ValueError (filter (\<lambda>c. c \<noteq> CHR '','') (strip t))), st')
           \<and> written st' = written st"
proof -
  let ?s = "filter (\<lambda>c. c \<noteq> CHR '','') (strip t)"
  let ?st1 = "(print (ReadingInput input_path) st)\<lparr>df_in := Some (astype_string_col w ''timestamp'' df0)\<rparr>"
  have su: "setup' w input_path st = (Inr True, ?st1)" by (rule setup_ok[OF assms(1,2)])
  then have pre: "process_rows w ?st1 pre = (Inr (), st2)" using assms(5) by simp
  from process_rows_frame[OF pre] have fr2: "page st2" "written st2 = written st"
    using assms(3) by (simp_all add: print_fields)
  from process_rows_df_some[OF pre] obtain df2 where d2: "df_in st2 = Some df2" by auto
  have sv: "fst (get_stock_value pg) = Some ?s"
    using assms(10) by (simp add: fst_get_stock_value)
  then have "truthy (fst (get_stock_value pg))" "py_float w (the (fst (get_stock_value pg))) = None"
    using assms(11,12) by (simp_all add: truthy_def)
  from store_results_error[OF this, of idx "fst (get_last_update_timestamp pg)" df2] sv
  have e: "store_results w idx (fst (get_stock_value pg)) (fst (get_last_update_timestamp pg)) df2
             = Inl (ValueError ?s)" by simp
  from process_row_verified[OF assms(6,7) fr2(1) assms(8,9) d2, of idx] e
  obtain st6 where r: "process_row w st2 (idx, row) = (Inl (ValueError ?s), st6)"
    and w6: "written st6 = written st2" by auto
  have "process_rows w ?st1 (pre @ (idx, row) # post) = (Inl (ValueError ?s), st6)"
    by (simp add: process_rows_append pre r)
  then have "get_stock_values_csv w input_path output_path st = (Inl (ValueError ?s), st6)"
    unfolding get_stock_values_csv_def su using assms(4) by simp
  with w6 fr2(2) show ?thesis by simp
qed

theorem unparseable_price_aborts_batch_witness:
  "\<exists>st'. get_stock_values_csv (demo_world (\<lambda>n u. Loaded (Some demo_ok) demo_page_bad_price))
            ''in.csv'' ''out.csv'' demo_state = (Inl (ValueError ''n/a''), st')
         \<and> written st' = []"
proof -
  let ?w = "demo_world (\<lambda>n u. Loaded (Some demo_ok) demo_page_bad_price)"
  have i: "iterrows (astype_string_col ?w ''timestamp'' demo_df) = [] @ (0, demo_row) # [(1, demo_row2)]"
    by (simp add: iterrows_def astype_string_col_def demo_df_def demo_row_def demo_row2_def
          astype_string_def)
  have v: "verify_page ?w (Some demo_ok) demo_page_bad_price
             (company_page_url ?w (Str ''ACM'') ''Acme plc'') ''Acme plc'' = Inr (True, [])"
    by (rule demo_verify) (simp_all add: demo_page_bad_price_def demo_page_def)
  show ?thesis
    using unparseable_price_aborts_batch [of ?w "''in.csv''" demo_df demo_state "[]" 0 demo_row "[(1, demo_row2)]"
                 "snd (setup' ?w ''in.csv'' demo_state)" "''Acme plc''" "Str ''ACM''"
                 "Some demo_ok" demo_page_bad_price "[]" "''n/a''" "''out.csv''", OF _ _ _ i _ _ _ _ v]
    by (simp add: demo_world_read demo_world_sel demo_df_def demo_state_def init_def demo_row_def
          demo_page_bad_price_def demo_strip)
qed

subsection \<open>A missing price or time stamp\<close>




end
